theory Spec2Isabelle
  imports Main "HOL-Library.Word" "HOL-Library.Signed_Division"
begin

section \<open>Token model (main.cpp, lines 7-94)\<close>

text \<open>
  The class hierarchy \<open>Token\<close> / \<open>NumberToken\<close> / \<open>OperatorToken\<close> / \<open>SymbolToken\<close> is a
  closed tagged union. Every variant carries the field \<open>d_value\<close> of the base class; an
  \<open>OperatorToken\<close> adds \<open>d_precedence\<close> (a \<open>uint32_t\<close>), \<open>d_leftAssociative\<close> and \<open>d_unary\<close>.
\<close>

datatype TokenType = Number | Operator | Symbol

datatype Token =
    NumberToken (d_value: string)
  | OperatorToken (d_value: string) (d_precedence: "32 word") (d_leftAssociative: bool) (d_unary: bool)
  | SymbolToken (d_value: string)

text \<open>The virtual method \<open>type()\<close>, overridden once per subclass.\<close>

fun type :: "Token \<Rightarrow> TokenType" where
  "type (NumberToken v) = Number"
| "type (OperatorToken v p l u) = Operator"
| "type (SymbolToken v) = Symbol"

text \<open>
  \<open>Token::toString\<close> (lines 20-40), the implementation of the base class: it starts
  from the prefix \<open>('\<close>, appends the name of the kind and then the suffix made of
  \<open>': '\<close>, the text and \<open>')\<close>.
\<close>

definition Token_toString :: "TokenType \<Rightarrow> string \<Rightarrow> string" where
  "Token_toString k v =
     (let prefix = [CHR ''('', CHR 0x27];
          suffix = [CHR 0x27, CHR '':'', CHR '' '', CHR 0x27] @ v @ [CHR 0x27, CHR '')''];
          prefix = (case k of
                      Number \<Rightarrow> prefix @ ''Number''
                    | Operator \<Rightarrow> prefix @ ''Operator''
                    | Symbol \<Rightarrow> prefix @ ''Symbol'')
      in prefix @ suffix)"

text \<open>\<open>OperatorToken::toString\<close> (lines 69-71), which overrides the method of the base class.\<close>

definition OperatorToken_toString :: "string \<Rightarrow> bool \<Rightarrow> string" where
  "OperatorToken_toString v u =
     [CHR ''('', CHR 0x27] @ ''Operator'' @ [CHR 0x27, CHR '':'', CHR '' '', CHR 0x27] @ v
       @ [CHR 0x27, CHR '','', CHR '' ''] @ (if u then ''unary'' else ''binary'') @ '')''"

text \<open>The virtual call \<open>token->toString()\<close>: dispatch on the dynamic class of the token.\<close>

fun toString :: "Token \<Rightarrow> string" where
  "toString (NumberToken v) = Token_toString Number v"
| "toString (OperatorToken v p l u) = OperatorToken_toString v u"
| "toString (SymbolToken v) = Token_toString Symbol v"

text \<open>
  The renderings the specification describes: the kind name without quotes around it.
\<close>

definition spec_toString :: "Token \<Rightarrow> string" where
  "spec_toString t =
     (case t of
        NumberToken v \<Rightarrow> ''(Number: '' @ [CHR 0x27] @ v @ [CHR 0x27] @ '')''
      | SymbolToken v \<Rightarrow> ''(Symbol: '' @ [CHR 0x27] @ v @ [CHR 0x27] @ '')''
      | OperatorToken v p l u \<Rightarrow>
          ''(Operator: '' @ [CHR 0x27] @ v @ [CHR 0x27] @ '', ''
            @ (if u then ''unary'' else ''binary'') @ '')'')"

section \<open>Shared token handles\<close>

text \<open>
  A \<open>TokenRef\<close> is a \<open>std::shared_ptr<Token>\<close>: a handle on a token object. The
  containers of the program hold handles, and the reordering pass writes to the object
  behind a handle (lines 167-168), so the objects live in an explicit store that maps a
  handle to the current value of its object. Two equal handles in a container are two
  references to one object. Handles are never null here: \<open>makeToken\<close> returns the
  result of \<open>std::make_shared\<close>; the only null handle of the program, the initial
  \<open>previousToken\<close>, is the value \<open>None\<close> of an option.
\<close>

type_synonym TokenRef = nat

type_synonym store = "TokenRef \<Rightarrow> Token"

text \<open>
  What the C++ leaves undefined is an error value of the model: a \<open>static_pointer_cast\<close>
  to \<open>OperatorToken\<close> of a token of another class followed by a field access, \<open>top()\<close>
  on an empty stack, and a division that the machine cannot carry out. \<open>OutOfRange\<close> is
  the exception of \<open>std::vector::at\<close>.
\<close>

datatype error = BadCast | EmptyStack | DivideFault | OutOfRange

section \<open>Reorder engine (main.cpp, lines 137-222)\<close>

text \<open>\<open>readToken\<close> (lines 137-142): the first element, and the queue without it.\<close>

fun readToken :: "TokenRef list \<Rightarrow> error + (TokenRef \<times> TokenRef list)" where
  "readToken [] = Inl OutOfRange"
| "readToken (token # tokens) = Inr (token, tokens)"

text \<open>
  The variables of \<open>shuntingYardAlgorithm\<close>: the store of token objects, the input queue
  (a reference parameter, consumed from the front), the two stacks (head of the list =
  top of the stack), \<open>previousToken\<close> and the text written to \<open>std::cout\<close>.
\<close>

record shunt =
  tokens :: store
  inputQueue :: "TokenRef list"
  outputStack :: "TokenRef list"
  operatorStack :: "TokenRef list"
  previousToken :: "TokenRef option"
  cout :: string

text \<open>
  Lines 165-170, the special check for a unary \<open>+\<close> or \<open>-\<close>, on the operator token
  behind the handle \<open>token\<close>: the two assignments go through \<open>as<OperatorToken>\<close>.
\<close>

definition tagUnary :: "store \<Rightarrow> TokenRef option \<Rightarrow> TokenRef \<Rightarrow> error + store" where
  "tagUnary h prev token =
     (if d_value (h token) = ''+'' \<or> d_value (h token) = ''-'' then
        (if (case prev of
               None \<Rightarrow> True
             | Some p \<Rightarrow> type (h p) = Operator \<or> type (h p) = Symbol)
         then (case h token of
                 OperatorToken v p l u \<Rightarrow> Inr (h(token := OperatorToken v p False True))
               | _ \<Rightarrow> Inl BadCast)
         else Inr h)
      else Inr h)"

text \<open>
  Lines 172-186, the loop that pops operators before the current one is pushed. It
  returns the operator stack and the output stack. Both casts of lines 176-177 are
  unchecked in the source.
\<close>

fun popOperators ::
  "store \<Rightarrow> TokenRef \<Rightarrow> TokenRef list \<Rightarrow> TokenRef list \<Rightarrow> error + (TokenRef list \<times> TokenRef list)" where
  "popOperators h token [] out = Inr ([], out)"
| "popOperators h token (topOp # ops) out =
     (if d_value (h topOp) = ''('' then Inr (topOp # ops, out)
      else
        (case h topOp of
           OperatorToken topValue topPrecedence topLeftAssociative topUnary \<Rightarrow>
             (case h token of
                OperatorToken currentValue currentPrecedence currentLeftAssociative currentUnary \<Rightarrow>
                  if topPrecedence < currentPrecedence then Inr (topOp # ops, out)
                  else if topPrecedence = currentPrecedence \<and> \<not> currentLeftAssociative
                    then Inr (topOp # ops, out)
                  else popOperators h token ops (topOp # out)
              | _ \<Rightarrow> Inl BadCast)
         | _ \<Rightarrow> Inl BadCast))"

text \<open>Lines 194-200, the loop run for a closing parenthesis.\<close>

fun popUntilParen :: "store \<Rightarrow> TokenRef list \<Rightarrow> TokenRef list \<Rightarrow> TokenRef list \<times> TokenRef list" where
  "popUntilParen h [] out = ([], out)"
| "popUntilParen h (topOp # ops) out =
     (if d_value (h topOp) = ''('' then (topOp # ops, out)
      else popUntilParen h ops (topOp # out))"

text \<open>Lines 216-219, the loop that empties the operator stack into the output stack.\<close>

fun drainOperators :: "TokenRef list \<Rightarrow> TokenRef list \<Rightarrow> TokenRef list \<times> TokenRef list" where
  "drainOperators [] out = ([], out)"
| "drainOperators (topOp # ops) out = drainOperators ops (topOp # out)"

text \<open>
  Lines 154-212, the body of the main loop after \<open>readToken\<close>, for the token just read.
  The boolean of the result says that the body left the loop by \<open>break\<close> (line 204):
  then line 212 has not run.
\<close>

definition consume :: "TokenRef \<Rightarrow> shunt \<Rightarrow> error + (bool \<times> shunt)" where
  "consume token s =
     (let h = tokens s in
      if type (h token) = Number then
        Inr (False, s\<lparr>outputStack := token # outputStack s, previousToken := Some token\<rparr>)
      else if d_value (h token) = ''('' then
        Inr (False, s\<lparr>operatorStack := token # operatorStack s, previousToken := Some token\<rparr>)
      else if type (h token) = Operator then
        (case tagUnary h (previousToken s) token of
           Inl e \<Rightarrow> Inl e
         | Inr h' \<Rightarrow>
             (case popOperators h' token (operatorStack s) (outputStack s) of
                Inl e \<Rightarrow> Inl e
              | Inr (ops, out) \<Rightarrow>
                  Inr (False, s\<lparr>tokens := h', outputStack := out,
                                operatorStack := token # ops, previousToken := Some token\<rparr>)))
      else if d_value (h token) = '')'' then
        (case popUntilParen h (operatorStack s) (outputStack s) of
           ([], out) \<Rightarrow>
             Inr (True, s\<lparr>outputStack := out, operatorStack := [],
                          cout := cout s @ ''Mismatched parenthesis error!'' @ [CHR 0x0A]\<rparr>)
         | (topOp # ops, out) \<Rightarrow>
             if d_value (h topOp) = ''('' then
               Inr (False, s\<lparr>outputStack := out, operatorStack := ops, previousToken := Some token\<rparr>)
             else
               Inr (True, s\<lparr>outputStack := out, operatorStack := topOp # ops,
                            cout := cout s @ ''Mismatched parenthesis error!'' @ [CHR 0x0A]\<rparr>))
      else Inr (False, s\<lparr>previousToken := Some token\<rparr>))"

lemma consume_inputQueue:
  "consume token s = Inr (b, s') \<Longrightarrow> inputQueue s' = inputQueue s"
  by (auto simp: consume_def Let_def split: if_splits sum.splits prod.splits list.splits)

text \<open>Lines 150-213, the main loop.\<close>

function whileInput :: "shunt \<Rightarrow> error + shunt" where
  "whileInput s =
     (if inputQueue s = [] then Inr s
      else
        (case readToken (inputQueue s) of
           Inl e \<Rightarrow> Inl e
         | Inr (token, rest) \<Rightarrow>
             (case consume token (s\<lparr>inputQueue := rest\<rparr>) of
                Inl e \<Rightarrow> Inl e
              | Inr (stop, s') \<Rightarrow> if stop then Inr s' else whileInput s')))"
  by pat_completeness auto
termination whileInput
proof (relation "measure (\<lambda>s. length (inputQueue s))")
  show "wf (measure (\<lambda>s. length (inputQueue s)))" by simp
next
  fix s :: shunt and x2 token rest x2a stop s'
  assume nonempty: "inputQueue s \<noteq> []"
    and rd: "readToken (inputQueue s) = Inr x2" "(token, rest) = x2"
    and cs: "consume token (s\<lparr>inputQueue := rest\<rparr>) = Inr x2a" "(stop, s') = x2a"
  from rd have "inputQueue s = token # rest"
    by (cases "inputQueue s") auto
  moreover from cs have "inputQueue s' = rest"
    using consume_inputQueue [of token "s\<lparr>inputQueue := rest\<rparr>" stop s'] by simp
  ultimately show "(s', s) \<in> measure (\<lambda>s. length (inputQueue s))" by simp
qed

declare whileInput.simps [simp del]

text \<open>Lines 215-221: the operator stack is emptied into the output stack.\<close>

definition returnOutput :: "shunt \<Rightarrow> shunt" where
  "returnOutput s =
     (case drainOperators (operatorStack s) (outputStack s) of
        (ops, out) \<Rightarrow> s\<lparr>outputStack := out, operatorStack := ops\<rparr>)"

text \<open>
  The function from the head of its main loop (line 150) to its return, with its
  variables as in \<open>s\<close>.
\<close>

definition shuntingYardFrom :: "shunt \<Rightarrow> error + shunt" where
  "shuntingYardFrom s =
     (case whileInput s of
        Inl e \<Rightarrow> Inl e
      | Inr s' \<Rightarrow> Inr (returnOutput s'))"

text \<open>
  \<open>shuntingYardAlgorithm\<close> (lines 144-222), run on a store and an input queue. The
  result holds the stack returned (\<open>outputStack\<close>) and what the call did to the token
  objects, to the queue of the caller and to \<open>std::cout\<close>.
\<close>

definition shuntingYardAlgorithm :: "store \<Rightarrow> TokenRef list \<Rightarrow> error + shunt" where
  "shuntingYardAlgorithm h queue =
     shuntingYardFrom \<lparr>tokens = h, inputQueue = queue, outputStack = [], operatorStack = [],
                       previousToken = None, cout = []\<rparr>"

section \<open>Evaluator (main.cpp, lines 52-54 and 224-257)\<close>

type_synonym int64_t = "64 word"

text \<open>
  \<open>std::atoll\<close> of the C library, on the characters of the text: it skips white space,
  reads an optional sign and then decimal digits up to the first character that is not
  one, and yields 0 when there is no digit. A value outside the range of \<open>long long\<close> is
  saturated, as \<open>strtoll\<close> does.
\<close>

definition isspace :: "char \<Rightarrow> bool" where
  "isspace c = (c \<in> set [CHR '' '', CHR 0x09, CHR 0x0A, CHR 0x0B, CHR 0x0C, CHR 0x0D])"

definition isdigit :: "char \<Rightarrow> bool" where
  "isdigit c = (c \<in> set ''0123456789'')"

fun digits :: "int \<Rightarrow> string \<Rightarrow> int" where
  "digits acc [] = acc"
| "digits acc (c # cs) =
     (if isdigit c then digits (acc * 10 + (of_char c - of_char CHR ''0'')) cs else acc)"

definition atoll :: "string \<Rightarrow> int" where
  "atoll str =
     (let s = dropWhile isspace str;
          n = (case s of
                 [] \<Rightarrow> 0
               | c # cs \<Rightarrow>
                   if c = CHR ''-'' then - digits 0 cs
                   else if c = CHR ''+'' then digits 0 cs
                   else digits 0 s)
      in max (- (2 ^ 63)) (min (2 ^ 63 - 1) n))"

text \<open>\<open>NumberToken::getIntValue\<close> (lines 52-54), on the text of the token.\<close>

definition getIntValue :: "string \<Rightarrow> int64_t" where
  "getIntValue v = word_of_int (atoll v)"

text \<open>Line 255: what the evaluator writes to \<open>std::cout\<close> for a token it cannot evaluate.\<close>

definition evalError :: "Token \<Rightarrow> string" where
  "evalError t = ''Error evaluating token: '' @ toString t @ [CHR 0x0A]"

text \<open>
  \<open>evaluateExpressionTokens\<close> (lines 224-257). The stack is a reference parameter: the
  result holds the value returned, the stack as the call leaves it and the text the call
  wrote to \<open>std::cout\<close>. Arithmetic on \<open>int64_t\<close> is two's complement: \<open>+\<close>, \<open>-\<close> and
  \<open>*\<close> wrap around, and \<open>/\<close> truncates towards zero; a division by zero and the
  division of the least value by \<open>-1\<close> have no result.
\<close>

function evaluateExpressionTokens ::
  "store \<Rightarrow> TokenRef list \<Rightarrow> error + (int64_t \<times> TokenRef list \<times> string)" where
  "evaluateExpressionTokens h [] = Inl EmptyStack"
| "evaluateExpressionTokens h (token # expressionStack) =
     (case h token of
        NumberToken v \<Rightarrow> Inr (getIntValue v, expressionStack, [])
      | OperatorToken v p l u \<Rightarrow>
          (if u then
             (case evaluateExpressionTokens h expressionStack of
                Inl e \<Rightarrow> Inl e
              | Inr (rhs, stack1, out1) \<Rightarrow>
                  if v = ''!'' then Inr (if rhs = 0 then 1 else 0, stack1, out1)
                  else if v = ''+'' then Inr (rhs, stack1, out1)
                  else if v = ''-'' then Inr (- rhs, stack1, out1)
                  else Inr (0, stack1, out1 @ evalError (h token)))
           else
             (case evaluateExpressionTokens h expressionStack of
                Inl e \<Rightarrow> Inl e
              | Inr (rhs, stack1, out1) \<Rightarrow>
                  (case evaluateExpressionTokens h stack1 of
                     Inl e \<Rightarrow> Inl e
                   | Inr (lhs, stack2, out2) \<Rightarrow>
                       if v = ''+'' then Inr (lhs + rhs, stack2, out1 @ out2)
                       else if v = ''-'' then Inr (lhs - rhs, stack2, out1 @ out2)
                       else if v = ''*'' then Inr (lhs * rhs, stack2, out1 @ out2)
                       else if v = ''/'' then
                         (if rhs = 0 \<or> (lhs = - (2 ^ 63) \<and> rhs = - 1) then Inl DivideFault
                          else Inr (word_of_int (sint lhs sdiv sint rhs), stack2, out1 @ out2))
                       else Inr (0, stack2, out1 @ out2 @ evalError (h token)))))
      | SymbolToken v \<Rightarrow> Inr (0, expressionStack, evalError (h token)))"
  by pat_completeness auto

lemma evaluate_shrinks_dom:
  "evaluateExpressionTokens_dom (h, stack) \<Longrightarrow>
   evaluateExpressionTokens h stack = Inr (x, stack', out) \<Longrightarrow> length stack' < length stack"
proof (induction h stack arbitrary: x stack' out rule: evaluateExpressionTokens.pinduct)
  case (1 h)
  then show ?case by (simp add: evaluateExpressionTokens.psimps)
next
  case (2 h token expressionStack)
  show ?case
  proof (cases "h token")
    case (NumberToken v)
    with 2(1) 2(5) show ?thesis by (simp add: evaluateExpressionTokens.psimps)
  next
    case (SymbolToken v)
    with 2(1) 2(5) show ?thesis by (simp add: evaluateExpressionTokens.psimps)
  next
    case (OperatorToken v p l u)
    show ?thesis
    proof (cases u)
      case True
      from 2(1) 2(5) OperatorToken True obtain rhs stack1 out1 where
        r: "evaluateExpressionTokens h expressionStack = Inr (rhs, stack1, out1)"
        and s: "stack' = stack1"
        by (auto simp: evaluateExpressionTokens.psimps split: sum.splits if_splits)
      from 2(2) [OF OperatorToken True r] s show ?thesis by simp
    next
      case False
      from 2(1) 2(5) OperatorToken False obtain rhs stack1 out1 lhs stack2 out2 where
        r: "evaluateExpressionTokens h expressionStack = Inr (rhs, stack1, out1)"
        and l: "evaluateExpressionTokens h stack1 = Inr (lhs, stack2, out2)"
        and s: "stack' = stack2"
        by (auto simp: evaluateExpressionTokens.psimps split: sum.splits if_splits)
      have "length stack1 < length expressionStack"
        using 2(3) [OF OperatorToken False r] .
      moreover have "length stack2 < length stack1"
        using 2(4) [OF OperatorToken False r refl refl l] .
      ultimately show ?thesis using s by simp
    qed
  qed
qed

termination evaluateExpressionTokens
proof (relation "measure (\<lambda>(h, stack). length stack)")
  show "wf (measure (\<lambda>(h, stack). length stack))" by simp
qed (auto dest: evaluate_shrinks_dom)

section \<open>Token objects of the examples\<close>

text \<open>
  A store with nothing allocated yet. The examples allocate their token objects in it,
  one handle per \<open>makeToken\<close> call, so the value it gives to a handle does not matter.
\<close>

definition noTokens :: store where
  "noTokens r = SymbolToken []"

text \<open>
  The first test expression of main.cpp (lines 97-113), \<open>4 + 2 * (3 - 1)\<close>: the objects
  its \<open>makeToken\<close> calls create, at the handles 0 to 8, and the vector of these handles.
\<close>

definition TOKENS1_objects :: "store \<Rightarrow> store" where
  "TOKENS1_objects h = h
     (0 := NumberToken ''4'',
      1 := OperatorToken ''+'' 1 True False,
      2 := NumberToken ''2'',
      3 := OperatorToken ''*'' 2 True False,
      4 := SymbolToken ''('',
      5 := NumberToken ''3'',
      6 := OperatorToken ''-'' 1 True False,
      7 := NumberToken ''1'',
      8 := SymbolToken '')'')"

definition TOKENS1 :: "TokenRef list" where
  "TOKENS1 = [0, 1, 2, 3, 4, 5, 6, 7, 8]"

text \<open>
  The static \<open>TOKENS\<close> of main.cpp (lines 122-135), \<open>- 6 + 2 * ( - 3 - 1 )\<close>: the objects
  at the handles 0 to 10, and the vector of these handles. The constructor's fourth
  argument, \<open>unary\<close>, is left to its default \<open>false\<close> in every call.
\<close>

definition TOKENS_objects :: "store \<Rightarrow> store" where
  "TOKENS_objects h = h
     (0 := OperatorToken ''-'' 1 False False,
      1 := NumberToken ''6'',
      2 := OperatorToken ''+'' 1 True False,
      3 := NumberToken ''2'',
      4 := OperatorToken ''*'' 2 True False,
      5 := SymbolToken ''('',
      6 := OperatorToken ''-'' 1 False False,
      7 := NumberToken ''3'',
      8 := OperatorToken ''-'' 1 True False,
      9 := NumberToken ''1'',
      10 := SymbolToken '')'')"

definition TOKENS :: "TokenRef list" where
  "TOKENS = [0, 1, 2, 3, 4, 5, 6, 7, 8, 9, 10]"

text \<open>Smaller inputs: \<open>- 3 - 1\<close>, \<open>( 1\<close>, \<open>( 3 - 1 )\<close>, \<open>- 7 / 2\<close> and \<open>3 ^ 2\<close> in postfix order.\<close>

definition minus3minus1 :: "store \<Rightarrow> store" where
  "minus3minus1 h = h
     (0 := OperatorToken ''-'' 1 True False,
      1 := NumberToken ''3'',
      2 := OperatorToken ''-'' 1 True False,
      3 := NumberToken ''1'')"

definition open1 :: "store \<Rightarrow> store" where
  "open1 h = h(0 := SymbolToken ''('', 1 := NumberToken ''1'')"

definition paren3minus1 :: store where
  "paren3minus1 = noTokens
     (0 := SymbolToken ''('',
      1 := NumberToken ''3'',
      2 := OperatorToken ''-'' 1 True False,
      3 := NumberToken ''1'',
      4 := SymbolToken '')'')"

definition minus7by2 :: store where
  "minus7by2 = noTokens
     (0 := OperatorToken ''/'' 2 True False,
      1 := NumberToken ''2'',
      2 := OperatorToken ''-'' 1 False True,
      3 := NumberToken ''7'')"

definition caret :: store where
  "caret = noTokens
     (0 := OperatorToken ''^'' 3 True False,
      1 := NumberToken ''2'',
      2 := NumberToken ''3'')"

text \<open>The objects of \<open>- 3 - 1\<close> once the pass has tagged the first \<open>-\<close>, and a unary \<open>~\<close>.\<close>

definition minus3minus1_tagged :: store where
  "minus3minus1_tagged = (minus3minus1 noTokens)(0 := OperatorToken ''-'' 1 False True)"

definition tilde :: store where
  "tilde = noTokens(0 := OperatorToken ''~'' 3 False True, 1 := NumberToken ''5'')"

text \<open>
  The input \<open>( - 9223372036854775807 - 1 ) / ( - 1 )\<close>, with sign-free literals, \<open>-\<close>
  of precedence 1 and \<open>/\<close> of precedence 2, all constructed left-associative and binary:
  its objects at the handles 0 to 10, the vector of these handles, and the objects once
  the pass has tagged the two \<open>-\<close> that follow a \<open>(\<close>.
\<close>

definition leastByMinus1_objects :: store where
  "leastByMinus1_objects = noTokens
     (0 := SymbolToken ''('',
      1 := OperatorToken ''-'' 1 True False,
      2 := NumberToken ''9223372036854775807'',
      3 := OperatorToken ''-'' 1 True False,
      4 := NumberToken ''1'',
      5 := SymbolToken '')'',
      6 := OperatorToken ''/'' 2 True False,
      7 := SymbolToken ''('',
      8 := OperatorToken ''-'' 1 True False,
      9 := NumberToken ''1'',
      10 := SymbolToken '')'')"

definition leastByMinus1 :: "TokenRef list" where
  "leastByMinus1 = [0, 1, 2, 3, 4, 5, 6, 7, 8, 9, 10]"

definition leastByMinus1_tagged :: store where
  "leastByMinus1_tagged = leastByMinus1_objects
     (1 := OperatorToken ''-'' 1 False True,
      8 := OperatorToken ''-'' 1 False True)"

section \<open>The casts of the reorder engine are safe\<close>

text \<open>
  The operator stack only ever holds tokens whose text is \<open>(\<close> and Operator tokens:
  lines 160 and 189 are its only pushes. \<open>castable\<close> says so of a stack, for the objects
  as the store has them.
\<close>

definition castable :: "store \<Rightarrow> TokenRef list \<Rightarrow> bool" where
  "castable h ops = list_all (\<lambda>t. d_value (h t) = ''('' \<or> type (h t) = Operator) ops"

lemma whileInput_Nil: "inputQueue s = [] \<Longrightarrow> whileInput s = Inr s"
  by (simp add: whileInput.simps)

lemma whileInput_Cons:
  "inputQueue s = token # rest \<Longrightarrow>
   whileInput s =
     (case consume token (s\<lparr>inputQueue := rest\<rparr>) of
        Inl e \<Rightarrow> Inl e
      | Inr (stop, s') \<Rightarrow> if stop then Inr s' else whileInput s')"
  by (subst whileInput.simps) simp

lemmas run_simps = shuntingYardAlgorithm_def shuntingYardFrom_def returnOutput_def
  whileInput_Cons whileInput_Nil consume_def tagUnary_def

lemmas eval_simps = getIntValue_def atoll_def isspace_def isdigit_def evalError_def
  Token_toString_def OperatorToken_toString_def

lemma tagUnary_total:
  "type (h token) = Operator \<Longrightarrow> \<exists>h'. tagUnary h prev token = Inr h'"
  by (cases "h token") (auto simp: tagUnary_def)

lemma tagUnary_kind:
  "tagUnary h prev token = Inr h' \<Longrightarrow> type (h' t) = type (h t) \<and> d_value (h' t) = d_value (h t)"
  by (auto simp: tagUnary_def split: if_splits Token.splits)

lemma tagUnary_castable:
  "tagUnary h prev token = Inr h' \<Longrightarrow> castable h' ops = castable h ops"
  by (simp add: castable_def tagUnary_kind)

lemma popOperators_total:
  "castable h ops \<Longrightarrow> type (h token) = Operator \<Longrightarrow>
   \<exists>ops' out'. popOperators h token ops out = Inr (ops', out') \<and> castable h ops'"
proof (induction ops arbitrary: out)
  case Nil
  then show ?case by simp
next
  case (Cons t ops)
  then show ?case
    by (cases "h t"; cases "h token") (auto simp: castable_def)
qed

lemma popUntilParen_castable:
  "castable h ops \<Longrightarrow> castable h (fst (popUntilParen h ops out))"
  by (induction ops arbitrary: out) (auto simp: castable_def)

lemma consume_total:
  assumes "castable (tokens s) (operatorStack s)"
  shows "\<exists>stop s'. consume token s = Inr (stop, s') \<and> castable (tokens s') (operatorStack s')"
proof (cases "type (tokens s token) = Number")
  case True
  with assms show ?thesis by (auto simp: consume_def)
next
  case notNumber: False
  show ?thesis
  proof (cases "d_value (tokens s token) = ''(''")
    case True
    with notNumber assms show ?thesis by (auto simp: consume_def castable_def)
  next
    case notOpen: False
    show ?thesis
    proof (cases "type (tokens s token) = Operator")
      case True
      then obtain h' where h': "tagUnary (tokens s) (previousToken s) token = Inr h'"
        using tagUnary_total by blast
      have "castable h' (operatorStack s)" "type (h' token) = Operator"
        using assms True tagUnary_castable [OF h'] tagUnary_kind [OF h'] by simp_all
      then obtain ops' out' where
        "popOperators h' token (operatorStack s) (outputStack s) = Inr (ops', out')" "castable h' ops'"
        using popOperators_total by blast
      with notNumber notOpen True h' \<open>type (h' token) = Operator\<close> show ?thesis
        by (auto simp: consume_def castable_def)
    next
      case notOperator: False
      show ?thesis
      proof (cases "d_value (tokens s token) = '')''")
        case False
        with notNumber notOpen notOperator assms show ?thesis
          by (auto simp: consume_def)
      next
        case True
        obtain ops' out' where
          p: "popUntilParen (tokens s) (operatorStack s) (outputStack s) = (ops', out')"
          by (cases "popUntilParen (tokens s) (operatorStack s) (outputStack s)")
        with assms have "castable (tokens s) ops'"
          using popUntilParen_castable [of "tokens s" "operatorStack s" "outputStack s"] by simp
        with notNumber notOpen notOperator True p show ?thesis
          by (cases ops') (auto simp: consume_def castable_def)
      qed
    qed
  qed
qed

lemma whileInput_total:
  "castable (tokens s) (operatorStack s) \<Longrightarrow>
   \<exists>s'. whileInput s = Inr s' \<and> castable (tokens s') (operatorStack s')"
proof (induction s rule: whileInput.induct)
  case (1 s)
  show ?case
  proof (cases "inputQueue s")
    case Nil
    with 1(2) show ?thesis by (simp add: whileInput_Nil)
  next
    case (Cons token rest)
    from 1(2) have "castable (tokens (s\<lparr>inputQueue := rest\<rparr>)) (operatorStack (s\<lparr>inputQueue := rest\<rparr>))"
      by simp
    then obtain stop s' where
      c: "consume token (s\<lparr>inputQueue := rest\<rparr>) = Inr (stop, s')"
      and ok: "castable (tokens s') (operatorStack s')"
      using consume_total by blast
    show ?thesis
    proof (cases stop)
      case True
      with Cons c ok show ?thesis by (simp add: whileInput_Cons)
    next
      case False
      have "\<exists>s''. whileInput s' = Inr s'' \<and> castable (tokens s'') (operatorStack s'')"
        using 1(1) [of "(token, rest)" token rest "(stop, s')" stop s'] Cons c False ok by simp
      with Cons c False show ?thesis by (simp add: whileInput_Cons)
    qed
  qed
qed

lemma shuntingYardAlgorithm_total: "\<exists>s. shuntingYardAlgorithm h queue = Inr s"
proof -
  let ?init = "\<lparr>tokens = h, inputQueue = queue, outputStack = [], operatorStack = [],
                 previousToken = None, cout = []\<rparr>"
  have "castable (tokens ?init) (operatorStack ?init)" by (simp add: castable_def)
  then obtain s' where "whileInput ?init = Inr s'" using whileInput_total by blast
  then show ?thesis by (simp add: shuntingYardAlgorithm_def shuntingYardFrom_def)
qed

lemma popUntilParen_eq:
  "popUntilParen h ops out =
     (dropWhile (\<lambda>t. d_value (h t) \<noteq> ''('') ops,
      rev (takeWhile (\<lambda>t. d_value (h t) \<noteq> ''('') ops) @ out)"
  by (induction ops arbitrary: out) simp_all

lemma drainOperators_eq: "drainOperators ops out = ([], rev ops @ out)"
  by (induction ops arbitrary: out) simp_all

section \<open>Facts about the evaluator\<close>

lemma evaluate_shrinks:
  "evaluateExpressionTokens h stack = Inr (x, stack', out) \<Longrightarrow> length stack' < length stack"
proof (induction h stack arbitrary: x stack' out rule: evaluateExpressionTokens.induct)
  case (1 h)
  then show ?case by simp
next
  case (2 h token expressionStack)
  show ?case
  proof (cases "h token")
    case (NumberToken v)
    with 2(4) show ?thesis by simp
  next
    case (SymbolToken v)
    with 2(4) show ?thesis by simp
  next
    case (OperatorToken v p l u)
    show ?thesis
    proof (cases u)
      case True
      from 2(4) OperatorToken True obtain rhs stack1 out1 where
        r: "evaluateExpressionTokens h expressionStack = Inr (rhs, stack1, out1)"
        and s: "stack' = stack1"
        by (auto split: sum.splits if_splits)
      from 2(1) [OF OperatorToken True r] s show ?thesis by simp
    next
      case False
      from 2(4) OperatorToken False obtain rhs stack1 out1 lhs stack2 out2 where
        r: "evaluateExpressionTokens h expressionStack = Inr (rhs, stack1, out1)"
        and l: "evaluateExpressionTokens h stack1 = Inr (lhs, stack2, out2)"
        and s: "stack' = stack2"
        by (auto split: sum.splits if_splits)
      have "length stack1 < length expressionStack"
        using 2(2) [OF OperatorToken False r] .
      moreover have "length stack2 < length stack1"
        using 2(3) [OF OperatorToken False r refl refl l] .
      ultimately show ?thesis using s by simp
    qed
  qed
qed

lemma sint_word_of_int_in_range:
  "- (2 ^ 63) \<le> x \<Longrightarrow> x < 2 ^ 63 \<Longrightarrow> sint (word_of_int x :: 64 word) = x"
  by (simp add: sint_sbintrunc' signed_take_bit_int_eq_self)

lemma sint_min_iff: "(a :: 64 word) = - (2 ^ 63) \<longleftrightarrow> sint a = - (2 ^ 63)"
proof -
  have "sint (- (2 ^ 63) :: 64 word) = - (2 ^ 63)" by simp
  then show ?thesis by (metis word_eq_iff_signed)
qed

lemma sint_minus1_iff: "(b :: 64 word) = - 1 \<longleftrightarrow> sint b = - 1"
  by (metis word_eq_iff_signed signed_minus_1)

lemma sint_zero_iff: "(b :: 64 word) = 0 \<longleftrightarrow> sint b = 0"
  by (metis signed_eq_0_iff)

lemma int_sdiv_range:
  fixes x y :: int
  assumes x: "- (2 ^ 63) \<le> x" "x < 2 ^ 63" and y: "y \<noteq> 0" and ov: "\<not> (x = - (2 ^ 63) \<and> y = - 1)"
  shows "- (2 ^ 63) \<le> x sdiv y \<and> x sdiv y < 2 ^ 63"
proof -
  have q: "\<bar>x sdiv y\<bar> = \<bar>x\<bar> div \<bar>y\<bar>"
    using y by (cases "x = 0") (simp_all add: signed_divide_int_def abs_mult abs_sgn_eq pos_imp_zdiv_nonneg_iff)
  show ?thesis
  proof (cases "y = - 1")
    case True
    with x ov show ?thesis by simp
  next
    case False
    show ?thesis
    proof (cases "y = 1")
      case True
      with x show ?thesis by simp
    next
      case False
      with \<open>y \<noteq> - 1\<close> y have "2 \<le> \<bar>y\<bar>" by arith
      then have "\<bar>x\<bar> div \<bar>y\<bar> \<le> \<bar>x\<bar> div 2"
        by (simp add: zdiv_mono2)
      with q x have "\<bar>x sdiv y\<bar> < 2 ^ 63" by simp
      then show ?thesis by arith
    qed
  qed
qed

lemma word_sdiv_exact:
  fixes lhs rhs :: "64 word"
  assumes "rhs \<noteq> 0" "\<not> (lhs = - (2 ^ 63) \<and> rhs = - 1)"
  shows "sint (word_of_int (sint lhs sdiv sint rhs) :: 64 word) = sint lhs sdiv sint rhs"
proof -
  have "- (2 ^ 63) \<le> sint lhs" "sint lhs < 2 ^ 63"
    using sint_ge [of lhs] sint_lt [of lhs] by simp_all
  moreover have "sint rhs \<noteq> 0" using assms(1) sint_zero_iff by blast
  moreover have "\<not> (sint lhs = - (2 ^ 63) \<and> sint rhs = - 1)"
    using assms(2) sint_min_iff sint_minus1_iff by blast
  ultimately have "- (2 ^ 63) \<le> sint lhs sdiv sint rhs \<and> sint lhs sdiv sint rhs < 2 ^ 63"
    by (rule int_sdiv_range)
  then show ?thesis by (simp add: sint_word_of_int_in_range)
qed

section \<open>The two test expressions\<close>

text \<open>
  C1: for the input \<open>4 + 2 * ( 3 - 1 )\<close>, with \<open>+\<close> and \<open>-\<close> of precedence 1 and \<open>*\<close> of
  precedence 2, all left-associative and binary, \<open>shuntingYardAlgorithm\<close> returns the stack
  \<open>+ * - 1 3 2 4\<close> (top first) with the queue consumed, no token re-tagged and nothing
  printed, and \<open>evaluateExpressionTokens\<close> on that stack returns 8 and empties it.
\<close>

theorem reorder_evaluate_first_expression:
  "shuntingYardAlgorithm (TOKENS1_objects h) TOKENS1 =
     Inr \<lparr>tokens = TOKENS1_objects h, inputQueue = [], outputStack = [1, 3, 6, 7, 5, 2, 0],
          operatorStack = [], previousToken = Some 8, cout = []\<rparr>
   \<and> evaluateExpressionTokens (TOKENS1_objects h) [1, 3, 6, 7, 5, 2, 0] = Inr (8, [], [])"
  by (simp add: run_simps eval_simps TOKENS1_objects_def TOKENS1_def)

text \<open>
  C2: for the static \<open>TOKENS\<close>, \<open>- 6 + 2 * ( - 3 - 1 )\<close>, the pass re-tags the two leading
  \<open>-\<close> tokens (handles 0 and 6) as unary and right-associative and leaves the third \<open>-\<close>
  (handle 8) binary; it returns the stack \<open>+ * - 1 -u 3 2 -u 6\<close> (top first), and the
  evaluator returns \<open>-14\<close> on it.
\<close>

theorem reorder_evaluate_TOKENS:
  "shuntingYardAlgorithm (TOKENS_objects h) TOKENS =
     Inr \<lparr>tokens = (TOKENS_objects h)
                      (0 := OperatorToken ''-'' 1 False True,
                       6 := OperatorToken ''-'' 1 False True),
          inputQueue = [], outputStack = [2, 4, 8, 9, 6, 7, 3, 0, 1], operatorStack = [],
          previousToken = Some 10, cout = []\<rparr>
   \<and> ((TOKENS_objects h)
         (0 := OperatorToken ''-'' 1 False True, 6 := OperatorToken ''-'' 1 False True)) 8 =
       OperatorToken ''-'' 1 True False
   \<and> evaluateExpressionTokens
         ((TOKENS_objects h)
            (0 := OperatorToken ''-'' 1 False True, 6 := OperatorToken ''-'' 1 False True))
         [2, 4, 8, 9, 6, 7, 3, 0, 1] = Inr (- 14, [], [])"
  by (simp add: run_simps eval_simps TOKENS_objects_def TOKENS_def)

section \<open>Unary tagging\<close>

text \<open>
  C3: when the pass consumes an Operator token whose text is \<open>+\<close> or \<open>-\<close>, the object
  behind the handle gets \<open>d_unary = true\<close> and \<open>d_leftAssociative = false\<close> if there is no
  previous token or the previous token is an Operator or a Symbol, and the store is left
  as it was if the previous token is a Number. The operator stack is assumed to hold what
  the pass puts on it (\<open>castable\<close>), which every run from the start preserves. The check
  runs per occurrence: in \<open>- 3 - 1\<close>, two tokens built alike, the first \<open>-\<close> comes out
  unary and the second stays binary.
\<close>

theorem unary_tagging:
  assumes tok: "tokens s token = OperatorToken v p l u"
    and sign: "v = ''+'' \<or> v = ''-''"
    and ok: "castable (tokens s) (operatorStack s)"
  shows "(\<exists>s'. consume token s = Inr (False, s') \<and>
           tokens s' =
             (case previousToken s of
                None \<Rightarrow> (tokens s)(token := OperatorToken v p False True)
              | Some prev \<Rightarrow>
                  (case type (tokens s prev) of
                     Number \<Rightarrow> tokens s
                   | Operator \<Rightarrow> (tokens s)(token := OperatorToken v p False True)
                   | Symbol \<Rightarrow> (tokens s)(token := OperatorToken v p False True))))
       \<and> shuntingYardAlgorithm (minus3minus1 h) [0, 1, 2, 3] =
           Inr \<lparr>tokens = (minus3minus1 h)(0 := OperatorToken ''-'' 1 False True),
                inputQueue = [], outputStack = [2, 3, 0, 1], operatorStack = [],
                previousToken = Some 3, cout = []\<rparr>
       \<and> ((minus3minus1 h)(0 := OperatorToken ''-'' 1 False True)) 2 =
           OperatorToken ''-'' 1 True False"
proof (intro conjI)
  define h' where "h' =
     (case previousToken s of
        None \<Rightarrow> (tokens s)(token := OperatorToken v p False True)
      | Some prev \<Rightarrow>
          (case type (tokens s prev) of
             Number \<Rightarrow> tokens s
           | Operator \<Rightarrow> (tokens s)(token := OperatorToken v p False True)
           | Symbol \<Rightarrow> (tokens s)(token := OperatorToken v p False True)))"
  have tag: "tagUnary (tokens s) (previousToken s) token = Inr h'"
    using tok sign by (auto simp: tagUnary_def h'_def split: option.splits TokenType.splits)
  have "castable h' (operatorStack s)"
    using tagUnary_castable [OF tag] ok by simp
  moreover have "type (h' token) = Operator"
    using tagUnary_kind [OF tag, of token] tok by simp
  ultimately obtain ops' out' where
    "popOperators h' token (operatorStack s) (outputStack s) = Inr (ops', out')"
    using popOperators_total by blast
  with tag tok sign show "\<exists>s'. consume token s = Inr (False, s') \<and> tokens s' = h'"
    by (auto simp: consume_def)
next
  show "shuntingYardAlgorithm (minus3minus1 h) [0, 1, 2, 3] =
           Inr \<lparr>tokens = (minus3minus1 h)(0 := OperatorToken ''-'' 1 False True),
                inputQueue = [], outputStack = [2, 3, 0, 1], operatorStack = [],
                previousToken = Some 3, cout = []\<rparr>"
    by (simp add: run_simps minus3minus1_def)
next
  show "((minus3minus1 h)(0 := OperatorToken ''-'' 1 False True)) 2 =
           OperatorToken ''-'' 1 True False"
    by (simp add: minus3minus1_def)
qed

text \<open>
  The theorem at the two \<open>-\<close> tokens of \<open>- 3 - 1\<close>: the first is read with no previous
  token, the second after the Number \<open>3\<close>, with the first \<open>-\<close> on the operator stack.
\<close>

theorem unary_tagging_witness:
  "(minus3minus1 noTokens) 0 = OperatorToken ''-'' 1 True False
   \<and> castable (minus3minus1 noTokens) []
   \<and> (\<exists>s'. consume 0 \<lparr>tokens = minus3minus1 noTokens, inputQueue = [1, 2, 3],
                        outputStack = [], operatorStack = [], previousToken = None,
                        cout = []\<rparr> = Inr (False, s')
          \<and> tokens s' = (minus3minus1 noTokens)(0 := OperatorToken ''-'' 1 False True))
   \<and> ((minus3minus1 noTokens)(0 := OperatorToken ''-'' 1 False True)) 2 =
       OperatorToken ''-'' 1 True False
   \<and> castable ((minus3minus1 noTokens)(0 := OperatorToken ''-'' 1 False True)) [0]
   \<and> (\<exists>s'. consume 2 \<lparr>tokens = (minus3minus1 noTokens)(0 := OperatorToken ''-'' 1 False True),
                        inputQueue = [3], outputStack = [1], operatorStack = [0],
                        previousToken = Some 1, cout = []\<rparr> = Inr (False, s')
          \<and> tokens s' = (minus3minus1 noTokens)(0 := OperatorToken ''-'' 1 False True))"
  using
    unary_tagging [of "\<lparr>tokens = minus3minus1 noTokens, inputQueue = [1, 2, 3],
                        outputStack = [], operatorStack = [], previousToken = None,
                        cout = []\<rparr>" 0 "''-''" 1 True False noTokens]
    unary_tagging [of "\<lparr>tokens = (minus3minus1 noTokens)(0 := OperatorToken ''-'' 1 False True),
                        inputQueue = [3], outputStack = [1], operatorStack = [0],
                        previousToken = Some 1, cout = []\<rparr>" 2 "''-''" 1 True False noTokens]
  by (simp add: minus3minus1_def castable_def)

section \<open>Pop before push\<close>

text \<open>
  C4: in the loop of lines 172-186, with the incoming Operator token \<open>O2\<close> (precedence
  \<open>curPrec\<close>, left-associative when \<open>curLeft\<close>) and an Operator \<open>O1\<close> on top whose text is not \<open>(\<close>
  (precedence \<open>topPrec\<close>), \<open>O1\<close> moves to the output stack and the loop goes on exactly when
  \<open>topPrec > curPrec\<close>, or \<open>topPrec = curPrec\<close> and \<open>O2\<close> is left-associative; otherwise the loop stops
  with both stacks as they are. It also stops so when the top has the text \<open>(\<close>, and
  when the stack is empty. Whatever the loop leaves, line 189 pushes \<open>O2\<close> on the
  operator stack.
\<close>

theorem pop_before_push:
  assumes cur: "h token = OperatorToken curText curPrec curLeft curUnary"
  shows "(h t = OperatorToken topText topPrec topLeft topUnary \<and> topText \<noteq> ''('' \<longrightarrow>
            popOperators h token (t # ops) out =
              (if curPrec < topPrec \<or> (topPrec = curPrec \<and> curLeft) then popOperators h token ops (t # out)
               else Inr (t # ops, out)))
       \<and> (d_value (h t) = ''('' \<longrightarrow> popOperators h token (t # ops) out = Inr (t # ops, out))
       \<and> popOperators h token [] out = Inr ([], out)
       \<and> (curText \<noteq> ''('' \<and> tagUnary (tokens s) (previousToken s) token = Inr h
            \<and> popOperators h token (operatorStack s) (outputStack s) = Inr (ops', out') \<longrightarrow>
            consume token s =
              Inr (False, s\<lparr>tokens := h, outputStack := out', operatorStack := token # ops',
                             previousToken := Some token\<rparr>))"
proof (intro conjI impI)
  assume "h t = OperatorToken topText topPrec topLeft topUnary \<and> topText \<noteq> ''(''"
  with cur show "popOperators h token (t # ops) out =
      (if curPrec < topPrec \<or> (topPrec = curPrec \<and> curLeft) then popOperators h token ops (t # out)
       else Inr (t # ops, out))"
    by auto
next
  assume "d_value (h t) = ''(''"
  then show "popOperators h token (t # ops) out = Inr (t # ops, out)" by simp
next
  show "popOperators h token [] out = Inr ([], out)" by simp
next
  assume a: "curText \<noteq> ''('' \<and> tagUnary (tokens s) (previousToken s) token = Inr h
            \<and> popOperators h token (operatorStack s) (outputStack s) = Inr (ops', out')"
  then have k: "type (tokens s token) = Operator" "d_value (tokens s token) = curText"
    using tagUnary_kind [of "tokens s" "previousToken s" token h token] cur by simp_all
  with a show "consume token s =
      Inr (False, s\<lparr>tokens := h, outputStack := out', operatorStack := token # ops',
                     previousToken := Some token\<rparr>)"
    by (simp add: consume_def)
qed

text \<open>
  The theorem at the second \<open>-\<close> of \<open>- 3 - 1\<close> (left-associative, precedence 1), which
  pops the unary \<open>-\<close> of the same precedence and is pushed, and at the \<open>-\<close> of
  \<open>( 3 - 1 )\<close>, which finds \<open>(\<close> on top and pops nothing.
\<close>

theorem pop_before_push_witness:
  "minus3minus1_tagged 2 = OperatorToken ''-'' 1 True False
   \<and> minus3minus1_tagged 0 = OperatorToken ''-'' 1 False True
   \<and> popOperators minus3minus1_tagged 2 [0] [1] = Inr ([], [0, 1])
   \<and> tagUnary minus3minus1_tagged (Some 1) 2 = Inr minus3minus1_tagged
   \<and> consume 2 \<lparr>tokens = minus3minus1_tagged, inputQueue = [3], outputStack = [1],
                 operatorStack = [0], previousToken = Some 1, cout = []\<rparr> =
       Inr (False, \<lparr>tokens = minus3minus1_tagged, inputQueue = [3], outputStack = [0, 1],
                    operatorStack = [2], previousToken = Some 2, cout = []\<rparr>)
   \<and> paren3minus1 2 = OperatorToken ''-'' 1 True False
   \<and> d_value (paren3minus1 0) = ''(''
   \<and> popOperators paren3minus1 2 [0] [1] = Inr ([0], [1])"
  using
    pop_before_push [where h = minus3minus1_tagged and token = 2 and t = 0 and ops = "[]"
      and out = "[1]" and curText = "''-''" and curPrec = 1 and curLeft = True and curUnary = False
      and topText = "''-''" and topPrec = 1 and topLeft = False and topUnary = True and ops' = "[]"
      and out' = "[0, 1]"
      and s = "\<lparr>tokens = minus3minus1_tagged, inputQueue = [3], outputStack = [1],
                 operatorStack = [0], previousToken = Some 1, cout = []\<rparr>"]
    pop_before_push [where h = paren3minus1 and token = 2 and t = 0 and ops = "[]"
      and out = "[1]" and curText = "''-''" and curPrec = 1 and curLeft = True and curUnary = False]
  by (simp add: minus3minus1_tagged_def minus3minus1_def paren3minus1_def tagUnary_def)

section \<open>Closing parenthesis\<close>

text \<open>
  C5: when the pass consumes a Symbol token \<open>)\<close>, the loop of lines 194-200 moves the
  operator-stack tokens above the first \<open>(\<close> to the output stack, in the order they are
  popped, and leaves the rest. If the stack it leaves is empty (by the fourth part a top
  other than \<open>(\<close> cannot be left), the body prints the mismatched-parenthesis message and
  breaks off the main loop without setting \<open>previousToken\<close>: the function then returns
  with the remaining input \<open>rest\<close> still in the queue, an empty operator stack and the
  output stack as the loop left it. Otherwise the top is \<open>(\<close>; it is popped and goes
  nowhere, and the main loop continues.
\<close>

theorem closing_parenthesis:
  assumes tok: "tokens s token = SymbolToken '')''"
    and pop: "popUntilParen (tokens s) (operatorStack s) (outputStack s) = (ops', out')"
  shows "ops' = dropWhile (\<lambda>t. d_value (tokens s t) \<noteq> ''('') (operatorStack s)
       \<and> out' = rev (takeWhile (\<lambda>t. d_value (tokens s t) \<noteq> ''('') (operatorStack s))
                  @ outputStack s
       \<and> (ops' = [] \<or> (\<exists>t r. ops' = t # r \<and> d_value (tokens s t) \<noteq> ''('') \<longrightarrow>
            consume token s =
              Inr (True, s\<lparr>outputStack := out', operatorStack := [],
                            cout := cout s @ ''Mismatched parenthesis error!'' @ [CHR 0x0A]\<rparr>)
            \<and> shuntingYardFrom (s\<lparr>inputQueue := token # rest\<rparr>) =
                Inr (s\<lparr>inputQueue := rest, outputStack := out', operatorStack := [],
                       cout := cout s @ ''Mismatched parenthesis error!'' @ [CHR 0x0A]\<rparr>))
       \<and> (\<forall>paren ops''. ops' = paren # ops'' \<longrightarrow>
            d_value (tokens s paren) = ''(''
            \<and> consume token s =
                Inr (False, s\<lparr>outputStack := out', operatorStack := ops'',
                               previousToken := Some token\<rparr>))"
proof -
  have o: "ops' = dropWhile (\<lambda>t. d_value (tokens s t) \<noteq> ''('') (operatorStack s)"
    and u: "out' = rev (takeWhile (\<lambda>t. d_value (tokens s t) \<noteq> ''('') (operatorStack s))
                     @ outputStack s"
    using pop by (simp_all add: popUntilParen_eq)
  have top_paren: "d_value (tokens s paren) = ''(''" if c: "ops' = paren # ops''" for paren ops''
  proof -
    from o c have "paren = hd (dropWhile (\<lambda>t. d_value (tokens s t) \<noteq> ''('') (operatorStack s))"
      and "dropWhile (\<lambda>t. d_value (tokens s t) \<noteq> ''('') (operatorStack s) \<noteq> []"
      by (metis list.sel(1), metis list.distinct(1))
    then show ?thesis
      using hd_dropWhile [of "\<lambda>t. d_value (tokens s t) \<noteq> ''(''" "operatorStack s"] by simp
  qed
  have mismatch: "consume token s =
              Inr (True, s\<lparr>outputStack := out', operatorStack := [],
                            cout := cout s @ ''Mismatched parenthesis error!'' @ [CHR 0x0A]\<rparr>)
            \<and> shuntingYardFrom (s\<lparr>inputQueue := token # rest\<rparr>) =
                Inr (s\<lparr>inputQueue := rest, outputStack := out', operatorStack := [],
                       cout := cout s @ ''Mismatched parenthesis error!'' @ [CHR 0x0A]\<rparr>)"
    if d: "ops' = [] \<or> (\<exists>t r. ops' = t # r \<and> d_value (tokens s t) \<noteq> ''('')"
  proof -
    from d top_paren have e: "ops' = []" by blast
    have "consume token (s\<lparr>inputQueue := rest\<rparr>) =
        Inr (True, s\<lparr>inputQueue := rest, outputStack := out', operatorStack := [],
                      cout := cout s @ ''Mismatched parenthesis error!'' @ [CHR 0x0A]\<rparr>)"
      using tok pop e by (simp add: consume_def)
    then have "shuntingYardFrom (s\<lparr>inputQueue := token # rest\<rparr>) =
        Inr (s\<lparr>inputQueue := rest, outputStack := out', operatorStack := [],
               cout := cout s @ ''Mismatched parenthesis error!'' @ [CHR 0x0A]\<rparr>)"
      by (simp add: shuntingYardFrom_def whileInput_Cons returnOutput_def)
    moreover have "consume token s =
        Inr (True, s\<lparr>outputStack := out', operatorStack := [],
                      cout := cout s @ ''Mismatched parenthesis error!'' @ [CHR 0x0A]\<rparr>)"
      using tok pop e by (simp add: consume_def)
    ultimately show ?thesis by simp
  qed
  have matched: "d_value (tokens s paren) = ''(''
            \<and> consume token s =
                Inr (False, s\<lparr>outputStack := out', operatorStack := ops'',
                               previousToken := Some token\<rparr>)"
    if c: "ops' = paren # ops''" for paren ops''
    using tok pop c top_paren [OF c] by (simp add: consume_def)
  from o u mismatch matched show ?thesis by blast
qed

text \<open>
  The theorem at the \<open>)\<close> of \<open>( 3 - 1 )\<close>, read with \<open>-\<close> and \<open>(\<close> on the operator
  stack, and at the same token read with only \<open>-\<close> there and the handle 1 still in the
  queue.
\<close>

theorem closing_parenthesis_witness:
  "paren3minus1 4 = SymbolToken '')''
   \<and> popUntilParen paren3minus1 [2, 0] [3, 1] = ([0], [2, 3, 1])
   \<and> d_value (paren3minus1 0) = ''(''
   \<and> consume 4 \<lparr>tokens = paren3minus1, inputQueue = [], outputStack = [3, 1],
                 operatorStack = [2, 0], previousToken = Some 3, cout = []\<rparr> =
       Inr (False, \<lparr>tokens = paren3minus1, inputQueue = [], outputStack = [2, 3, 1],
                    operatorStack = [], previousToken = Some 4, cout = []\<rparr>)
   \<and> popUntilParen paren3minus1 [2] [3, 1] = ([], [2, 3, 1])
   \<and> shuntingYardFrom \<lparr>tokens = paren3minus1, inputQueue = [4, 1], outputStack = [3, 1],
                        operatorStack = [2], previousToken = Some 3, cout = []\<rparr> =
       Inr \<lparr>tokens = paren3minus1, inputQueue = [1], outputStack = [2, 3, 1],
            operatorStack = [], previousToken = Some 3,
            cout = ''Mismatched parenthesis error!'' @ [CHR 0x0A]\<rparr>"
  using
    closing_parenthesis [where token = 4 and ops' = "[0]" and out' = "[2, 3, 1]" and rest = "[]"
      and s = "\<lparr>tokens = paren3minus1, inputQueue = [], outputStack = [3, 1],
                 operatorStack = [2, 0], previousToken = Some 3, cout = []\<rparr>"]
    closing_parenthesis [where token = 4 and ops' = "[]" and out' = "[2, 3, 1]" and rest = "[1]"
      and s = "\<lparr>tokens = paren3minus1, inputQueue = [], outputStack = [3, 1],
                 operatorStack = [2], previousToken = Some 3, cout = []\<rparr>"]
  by (simp add: paren3minus1_def)

section \<open>Final drain\<close>

text \<open>
  C6: the main loop always ends, by exhausting the queue or by the \<open>break\<close> of line 204,
  in some state \<open>s\<close>; the function then returns \<open>s\<close> with every token of the operator
  stack moved to the output stack, the top of the operator stack first (so it ends
  deepest), and nothing else changed: no check, nothing printed. An unmatched \<open>(\<close> is
  moved like any other token: for the input \<open>( 1\<close> the returned stack has the \<open>(\<close> on
  top of the \<open>1\<close>, and \<open>std::cout\<close> is empty.
\<close>

theorem final_drain:
  "(\<exists>s. whileInput \<lparr>tokens = h, inputQueue = queue, outputStack = [], operatorStack = [],
                      previousToken = None, cout = []\<rparr> = Inr s
         \<and> shuntingYardAlgorithm h queue =
             Inr (s\<lparr>outputStack := rev (operatorStack s) @ outputStack s, operatorStack := []\<rparr>))
   \<and> shuntingYardAlgorithm (open1 h) [0, 1] =
       Inr \<lparr>tokens = open1 h, inputQueue = [], outputStack = [0, 1], operatorStack = [],
            previousToken = Some 1, cout = []\<rparr>
   \<and> open1 h 0 = SymbolToken ''(''"
proof (intro conjI)
  let ?init = "\<lparr>tokens = h, inputQueue = queue, outputStack = [], operatorStack = [],
                 previousToken = None, cout = []\<rparr>"
  have "castable (tokens ?init) (operatorStack ?init)" by (simp add: castable_def)
  then obtain s where s: "whileInput ?init = Inr s" using whileInput_total by blast
  then have "shuntingYardAlgorithm h queue =
      Inr (s\<lparr>outputStack := rev (operatorStack s) @ outputStack s, operatorStack := []\<rparr>)"
    by (simp add: shuntingYardAlgorithm_def shuntingYardFrom_def returnOutput_def drainOperators_eq)
  with s show "\<exists>s. whileInput ?init = Inr s
         \<and> shuntingYardAlgorithm h queue =
             Inr (s\<lparr>outputStack := rev (operatorStack s) @ outputStack s, operatorStack := []\<rparr>)"
    by blast
next
  show "shuntingYardAlgorithm (open1 h) [0, 1] =
       Inr \<lparr>tokens = open1 h, inputQueue = [], outputStack = [0, 1], operatorStack = [],
            previousToken = Some 1, cout = []\<rparr>"
    by (simp add: run_simps open1_def)
next
  show "open1 h 0 = SymbolToken ''(''" by (simp add: open1_def)
qed

section \<open>Operators in the evaluator\<close>

text \<open>
  C7, as the code has it: when the evaluator pops an Operator token with
  \<open>d_unary = false\<close>, it evaluates the right-hand operand on the stack as the pop left
  it, then the left-hand operand on the stack as the first evaluation left it; when both
  return, it returns \<open>lhs + rhs\<close>, \<open>lhs - rhs\<close> or \<open>lhs * rhs\<close> for the texts \<open>+\<close>,
  \<open>-\<close> and \<open>*\<close> (64-bit two's complement), and for \<open>/\<close> the quotient truncated
  towards zero unless the divisor is 0 or the dividend is the least 64-bit value and the
  divisor is \<open>-1\<close>: neither case is guarded, and in both the division has no result.
  When it pops an Operator with \<open>d_unary = true\<close>, it evaluates one operand and returns 1
  if the operand is 0 and 0 otherwise for \<open>!\<close>, the operand for \<open>+\<close>, and the operand
  negated for \<open>-\<close>.
\<close>

theorem evaluate_operators:
  "(h token = OperatorToken v p l False
      \<and> evaluateExpressionTokens h stack = Inr (rhs, stackR, outR)
      \<and> evaluateExpressionTokens h stackR = Inr (lhs, stackL, outL) \<longrightarrow>
        (v = ''+'' \<longrightarrow>
           evaluateExpressionTokens h (token # stack) = Inr (lhs + rhs, stackL, outR @ outL))
      \<and> (v = ''-'' \<longrightarrow>
           evaluateExpressionTokens h (token # stack) = Inr (lhs - rhs, stackL, outR @ outL))
      \<and> (v = ''*'' \<longrightarrow>
           evaluateExpressionTokens h (token # stack) = Inr (lhs * rhs, stackL, outR @ outL))
      \<and> (v = ''/'' \<and> rhs \<noteq> 0 \<and> \<not> (lhs = - (2 ^ 63) \<and> rhs = - 1) \<longrightarrow>
           (\<exists>q. evaluateExpressionTokens h (token # stack) = Inr (q, stackL, outR @ outL)
              \<and> sint q = sgn (sint lhs) * sgn (sint rhs) * (\<bar>sint lhs\<bar> div \<bar>sint rhs\<bar>)))
      \<and> (v = ''/'' \<and> rhs = 0 \<longrightarrow>
           evaluateExpressionTokens h (token # stack) = Inl DivideFault)
      \<and> (v = ''/'' \<and> lhs = - (2 ^ 63) \<and> rhs = - 1 \<longrightarrow>
           evaluateExpressionTokens h (token # stack) = Inl DivideFault))
   \<and> (h token = OperatorToken v p l True
      \<and> evaluateExpressionTokens h stack = Inr (rhs, stackR, outR) \<longrightarrow>
        (v = ''!'' \<longrightarrow>
           evaluateExpressionTokens h (token # stack) =
             Inr (if rhs = 0 then 1 else 0, stackR, outR))
      \<and> (v = ''+'' \<longrightarrow>
           evaluateExpressionTokens h (token # stack) = Inr (rhs, stackR, outR))
      \<and> (v = ''-'' \<longrightarrow>
           evaluateExpressionTokens h (token # stack) = Inr (- rhs, stackR, outR)))"
proof -
  have division: "sint (word_of_int (sint lhs sdiv sint rhs) :: 64 word) =
      sgn (sint lhs) * sgn (sint rhs) * (\<bar>sint lhs\<bar> div \<bar>sint rhs\<bar>)"
    if "rhs \<noteq> 0" "\<not> (lhs = - (2 ^ 63) \<and> rhs = - 1)"
    using word_sdiv_exact [OF that] by (simp add: signed_divide_int_def)
  show ?thesis
    using division by auto
qed

text \<open>
  The theorem on the postfix stack of \<open>- 7 / 2\<close>: the unary \<open>-\<close> gives \<open>-7\<close>, and the
  binary \<open>/\<close> pops the divisor 2 first and returns \<open>-3\<close>, the quotient truncated towards
  zero.
\<close>

theorem evaluate_operators_witness:
  "minus7by2 2 = OperatorToken ''-'' 1 False True
   \<and> evaluateExpressionTokens minus7by2 [3] = Inr (7, [], [])
   \<and> evaluateExpressionTokens minus7by2 [2, 3] = Inr (- 7, [], [])
   \<and> minus7by2 0 = OperatorToken ''/'' 2 True False
   \<and> evaluateExpressionTokens minus7by2 [1, 2, 3] = Inr (2, [2, 3], [])
   \<and> (\<exists>q. evaluateExpressionTokens minus7by2 [0, 1, 2, 3] = Inr (q, [], []) \<and> sint q = - 3)"
  using
    evaluate_operators [where h = minus7by2 and token = 2 and v = "''-''" and p = 1
      and l = False and stack = "[3]" and rhs = 7 and stackR = "[]" and outR = "[]"]
    evaluate_operators [where h = minus7by2 and token = 0 and v = "''/''" and p = 2
      and l = True and stack = "[1, 2, 3]" and rhs = 2 and stackR = "[2, 3]" and outR = "[]"
      and lhs = "- 7" and stackL = "[]" and outL = "[]"]
  by (simp add: minus7by2_def eval_simps)

text \<open>
  C7, as the specification words it, fails: it excepts only the division by zero. For
  the input \<open>( - 9223372036854775807 - 1 ) / ( - 1 )\<close> the pass returns the stack
  \<open>/ -u 1 - 1 -u 9223372036854775807\<close> (top first). On it the binary \<open>/\<close> gets the
  right-hand operand \<open>-1\<close>, which is not 0, and the left-hand operand \<open>-2^63\<close>, and the
  evaluator returns no quotient.
\<close>

theorem evaluate_division_counterexample:
  "shuntingYardAlgorithm leastByMinus1_objects leastByMinus1 =
     Inr \<lparr>tokens = leastByMinus1_tagged, inputQueue = [],
          outputStack = [6, 8, 9, 3, 4, 1, 2], operatorStack = [],
          previousToken = Some 10, cout = []\<rparr>
   \<and> leastByMinus1_tagged 6 = OperatorToken ''/'' 2 True False
   \<and> evaluateExpressionTokens leastByMinus1_tagged [8, 9, 3, 4, 1, 2] =
       Inr (- 1, [3, 4, 1, 2], [])
   \<and> evaluateExpressionTokens leastByMinus1_tagged [3, 4, 1, 2] = Inr (- (2 ^ 63), [], [])
   \<and> evaluateExpressionTokens leastByMinus1_tagged [6, 8, 9, 3, 4, 1, 2] = Inl DivideFault"
  by (simp add: run_simps eval_simps leastByMinus1_objects_def leastByMinus1_def
      leastByMinus1_tagged_def)

section \<open>Tokens the evaluator cannot evaluate\<close>

text \<open>
  C8, as the code has it: the check of the text comes after the operands. For a Symbol
  token the evaluator prints \<open>Error evaluating token:\<close>, the rendering of the token and
  a newline, and returns 0, at once. For a unary Operator whose text is none of \<open>!\<close>,
  \<open>+\<close>, \<open>-\<close> it does so once the evaluation of one operand has returned, and for a
  binary Operator whose text is none of \<open>+\<close>, \<open>-\<close>, \<open>*\<close>, \<open>/\<close> once the evaluations
  of two operands have returned; the stack left is the one the operands left.
\<close>

theorem evaluate_error_after_operands:
  "(h token = SymbolToken v \<longrightarrow>
      evaluateExpressionTokens h (token # stack) =
        Inr (0, stack, ''Error evaluating token: '' @ toString (h token) @ [CHR 0x0A]))
   \<and> (h token = OperatorToken v p l True \<and> v \<notin> set [''!'', ''+'', ''-'']
        \<and> evaluateExpressionTokens h stack = Inr (rhs, stackR, outR) \<longrightarrow>
      evaluateExpressionTokens h (token # stack) =
        Inr (0, stackR, outR @ ''Error evaluating token: '' @ toString (h token) @ [CHR 0x0A]))
   \<and> (h token = OperatorToken v p l False \<and> v \<notin> set [''+'', ''-'', ''*'', ''/'']
        \<and> evaluateExpressionTokens h stack = Inr (rhs, stackR, outR)
        \<and> evaluateExpressionTokens h stackR = Inr (lhs, stackL, outL) \<longrightarrow>
      evaluateExpressionTokens h (token # stack) =
        Inr (0, stackL,
             outR @ outL @ ''Error evaluating token: '' @ toString (h token) @ [CHR 0x0A]))"
  by (simp add: evalError_def)

text \<open>
  The theorem on the stack returned for \<open>( 1\<close>, whose top is the unmatched \<open>(\<close>, on the
  unary \<open>~\<close> over \<open>5\<close>, and on the binary \<open>^\<close> over \<open>2\<close> and \<open>3\<close>.
\<close>

theorem evaluate_error_after_operands_witness:
  "open1 noTokens 0 = SymbolToken ''(''
   \<and> evaluateExpressionTokens (open1 noTokens) [0, 1] =
       Inr (0, [1], ''Error evaluating token: ('Symbol': '(')'' @ [CHR 0x0A])
   \<and> tilde 0 = OperatorToken ''~'' 3 False True
   \<and> evaluateExpressionTokens tilde [1] = Inr (5, [], [])
   \<and> evaluateExpressionTokens tilde [0, 1] =
       Inr (0, [], ''Error evaluating token: ('Operator': '~', unary)'' @ [CHR 0x0A])
   \<and> caret 0 = OperatorToken ''^'' 3 True False
   \<and> evaluateExpressionTokens caret [1, 2] = Inr (2, [2], [])
   \<and> evaluateExpressionTokens caret [2] = Inr (3, [], [])
   \<and> evaluateExpressionTokens caret [0, 1, 2] =
       Inr (0, [], ''Error evaluating token: ('Operator': '^', binary)'' @ [CHR 0x0A])"
  using
    evaluate_error_after_operands [where h = "open1 noTokens" and token = 0 and v = "''(''"
      and stack = "[1]"]
    evaluate_error_after_operands [where h = tilde and token = 0 and v = "''~''" and p = 3
      and l = False and stack = "[1]" and rhs = 5 and stackR = "[]" and outR = "[]"]
    evaluate_error_after_operands [where h = caret and token = 0 and v = "''^''" and p = 3
      and l = True and stack = "[1, 2]" and rhs = 2 and stackR = "[2]" and outR = "[]"
      and lhs = 3 and stackL = "[]" and outL = "[]"]
  by (simp add: open1_def tilde_def caret_def eval_simps)

text \<open>
  C8, as the specification words it, fails: with the binary \<open>^\<close> alone on the stack, the
  token popped is an Operator of unknown text, and the evaluator neither prints a
  diagnostic nor returns 0: it goes on to read the top of an empty stack.
\<close>

theorem evaluate_error_counterexample:
  "caret 0 = OperatorToken ''^'' 3 True False
   \<and> evaluateExpressionTokens caret [0] = Inl EmptyStack"
  by (simp add: caret_def)

text \<open>
  C10: when the evaluator pops a binary Operator whose text is none of \<open>+\<close>, \<open>-\<close>,
  \<open>*\<close>, \<open>/\<close>, it evaluates two operands first. When both return, it prints the
  diagnostic after whatever the operands printed and returns 0, and the stack is the one
  the second operand left, at least two tokens shorter than below the operator. When an
  operand has no result, neither has the call: the error branch is not reached.
\<close>

theorem evaluate_error_not_atomic:
  assumes tok: "h token = OperatorToken v p l False"
    and unknown: "v \<notin> set [''+'', ''-'', ''*'', ''/'']"
  shows "(evaluateExpressionTokens h stack = Inr (rhs, stackR, outR)
            \<and> evaluateExpressionTokens h stackR = Inr (lhs, stackL, outL) \<longrightarrow>
          evaluateExpressionTokens h (token # stack) =
            Inr (0, stackL,
                 outR @ outL @ ''Error evaluating token: '' @ toString (h token) @ [CHR 0x0A])
          \<and> length stackL + 2 \<le> length stack)
       \<and> (evaluateExpressionTokens h stack = Inl e \<longrightarrow>
            evaluateExpressionTokens h (token # stack) = Inl e)
       \<and> (evaluateExpressionTokens h stack = Inr (rhs, stackR, outR)
            \<and> evaluateExpressionTokens h stackR = Inl e \<longrightarrow>
            evaluateExpressionTokens h (token # stack) = Inl e)"
proof (intro conjI impI)
  assume ev: "evaluateExpressionTokens h stack = Inr (rhs, stackR, outR)
            \<and> evaluateExpressionTokens h stackR = Inr (lhs, stackL, outL)"
  with tok unknown show "evaluateExpressionTokens h (token # stack) =
            Inr (0, stackL,
                 outR @ outL @ ''Error evaluating token: '' @ toString (h token) @ [CHR 0x0A])"
    by (simp add: evalError_def)
  from ev have "length stackR < length stack" "length stackL < length stackR"
    using evaluate_shrinks by blast+
  then show "length stackL + 2 \<le> length stack" by simp
next
  assume "evaluateExpressionTokens h stack = Inl e"
  with tok show "evaluateExpressionTokens h (token # stack) = Inl e" by simp
next
  assume "evaluateExpressionTokens h stack = Inr (rhs, stackR, outR)
            \<and> evaluateExpressionTokens h stackR = Inl e"
  with tok show "evaluateExpressionTokens h (token # stack) = Inl e" by simp
qed

text \<open>
  The theorem on the binary \<open>^\<close> over \<open>2\<close> and \<open>3\<close> with a \<open>3\<close> more below: both operands
  are gone when the diagnostic is printed. With one operand only, the second evaluation
  finds the stack empty and the call has no result.
\<close>

theorem evaluate_error_not_atomic_witness:
  "caret 0 = OperatorToken ''^'' 3 True False
   \<and> ''^'' \<notin> set [''+'', ''-'', ''*'', ''/'']
   \<and> evaluateExpressionTokens caret [1, 2, 2] = Inr (2, [2, 2], [])
   \<and> evaluateExpressionTokens caret [2, 2] = Inr (3, [2], [])
   \<and> evaluateExpressionTokens caret [0, 1, 2, 2] =
       Inr (0, [2], ''Error evaluating token: ('Operator': '^', binary)'' @ [CHR 0x0A])
   \<and> length [2 :: TokenRef] + 2 \<le> length [1, 2, 2 :: TokenRef]
   \<and> evaluateExpressionTokens caret [1] = Inr (2, [], [])
   \<and> evaluateExpressionTokens caret [] = Inl EmptyStack
   \<and> evaluateExpressionTokens caret [0, 1] = Inl EmptyStack"
  using
    evaluate_error_not_atomic [where h = caret and token = 0 and v = "''^''" and p = 3
      and l = True and stack = "[1, 2, 2]" and rhs = 2 and stackR = "[2, 2]" and outR = "[]"
      and lhs = 3 and stackL = "[2]" and outL = "[]"]
    evaluate_error_not_atomic [where h = caret and token = 0 and v = "''^''" and p = 3
      and l = True and stack = "[1]" and rhs = 2 and stackR = "[]" and outR = "[]"
      and e = EmptyStack]
  by (simp add: caret_def eval_simps)

section \<open>Rendering of tokens\<close>

text \<open>
  C9, as the code has it: for a Number or Symbol token with text \<open>t\<close>, \<open>toString()\<close>
  returns an opening parenthesis, the kind name between single quotes, a colon and a
  space, the text between single quotes and a closing parenthesis; for an Operator token
  it returns the same shape with the kind name \<open>Operator\<close> between single quotes, followed
  by a comma, a space and the word \<open>unary\<close> when \<open>d_unary\<close> is true, \<open>binary\<close> when it is
  false, before the closing parenthesis.
\<close>

theorem toString_quoted_kind:
  "toString (NumberToken t) = ''('Number': '' @ [CHR 0x27] @ t @ [CHR 0x27] @ '')''
   \<and> toString (SymbolToken t) = ''('Symbol': '' @ [CHR 0x27] @ t @ [CHR 0x27] @ '')''
   \<and> toString (OperatorToken t p l True) =
         ''('Operator': '' @ [CHR 0x27] @ t @ [CHR 0x27] @ '', unary)''
   \<and> toString (OperatorToken t p l False) =
         ''('Operator': '' @ [CHR 0x27] @ t @ [CHR 0x27] @ '', binary)''"
  by (simp add: Token_toString_def OperatorToken_toString_def)

text \<open>
  C9, as the specification words it, fails: for the Number token with text \<open>4\<close> the
  specification gives the rendering with the bare kind name, and the code returns another
  string, with the kind name between single quotes.
\<close>

theorem toString_unquoted_counterexample:
  "spec_toString (NumberToken ''4'') = ''(Number: '4')''
   \<and> toString (NumberToken ''4'') = ''('Number': '4')''
   \<and> toString (NumberToken ''4'') \<noteq> spec_toString (NumberToken ''4'')"
  by (simp add: Token_toString_def spec_toString_def)


end
